theory Spec2Isabelle
  imports Complex_Main "HOL-Library.AList" "HOL-Library.Multiset"
begin

section \<open>Python strings\<close>

text \<open>
  A Python \<^verbatim>\<open>str\<close> is a sequence of Unicode code points; it is modelled as the list of
  its code points. \<open>py\<close> turns an ASCII literal into such a string.
\<close>

type_synonym pystr = "nat list"

definition py :: "string \<Rightarrow> pystr" where
  "py s = map of_char s"

text \<open>
  \<^verbatim>\<open>str.isspace\<close> on one code point. \<^verbatim>\<open>str.strip()\<close>, \<^verbatim>\<open>str.split()\<close> and the
  regular expression class \<^verbatim>\<open>\s\<close> (on a \<^verbatim>\<open>str\<close> pattern) all use this set.
\<close>

definition isspace :: "nat \<Rightarrow> bool" where
  "isspace c \<longleftrightarrow>
     (0x09 \<le> c \<and> c \<le> 0x0D) \<or> (0x1C \<le> c \<and> c \<le> 0x20) \<or> c = 0x85 \<or> c = 0xA0 \<or>
     c = 0x1680 \<or> (0x2000 \<le> c \<and> c \<le> 0x200A) \<or> c = 0x2028 \<or> c = 0x2029 \<or>
     c = 0x202F \<or> c = 0x205F \<or> c = 0x3000"

text \<open>\<^verbatim>\<open>s.strip()\<close>: leading and trailing whitespace removed.\<close>

definition str_strip :: "pystr \<Rightarrow> pystr" where
  "str_strip s = rev (dropWhile isspace (rev (dropWhile isspace s)))"

text \<open>
  \<^verbatim>\<open>s.split()\<close>: the maximal runs of characters that are not whitespace. The first
  argument is the word read so far.
\<close>

fun split_from :: "pystr \<Rightarrow> pystr \<Rightarrow> pystr list" where
  "split_from w [] = (if w = [] then [] else [w])"
| "split_from w (c # cs) =
     (if isspace c then (if w = [] then split_from [] cs else w # split_from [] cs)
      else split_from (w @ [c]) cs)"

definition str_split :: "pystr \<Rightarrow> pystr list" where
  "str_split s = split_from [] s"

text \<open>\<^verbatim>\<open>sep.join(xs)\<close>.\<close>

fun str_join :: "pystr \<Rightarrow> pystr list \<Rightarrow> pystr" where
  "str_join sep [] = []"
| "str_join sep [x] = x"
| "str_join sep (x # y # ys) = x @ sep @ str_join sep (y # ys)"

text \<open>The newline string \<^verbatim>\<open>"\n"\<close>.\<close>

definition NL :: pystr where
  "NL = [0x0A]"

section \<open>The chapter table (app.py)\<close>

text \<open>
  A chapter record as the pipeline handles it: the four fields of the table
  \<^verbatim>\<open>chapters (chapter_number TEXT, title TEXT, start_page INTEGER, end_page INTEGER)\<close>.
  A page bound that is \<^verbatim>\<open>None\<close> (JSON \<^verbatim>\<open>null\<close>, SQL \<^verbatim>\<open>NULL\<close>) is \<open>None\<close>.
\<close>

record chapter_record =
  chapter_number :: pystr
  title :: pystr
  start_page :: "int option"
  end_page :: "int option"

text \<open>
  The state of the database file \<^verbatim>\<open>chapters.db\<close> is the content of its one table: the
  rows in insertion order, which is the order \<^verbatim>\<open>SELECT *\<close> returns them in.
\<close>

type_synonym row = "pystr \<times> pystr \<times> int option \<times> int option"
type_synonym db = "row list"

text \<open>\<^verbatim>\<open>DELETE FROM chapters\<close> and \<^verbatim>\<open>INSERT INTO chapters VALUES (?, ?, ?, ?)\<close>.\<close>

definition delete_from_chapters :: "db \<Rightarrow> db" where
  "delete_from_chapters d = []"

definition insert_into_chapters :: "row \<Rightarrow> db \<Rightarrow> db" where
  "insert_into_chapters r d = d @ [r]"

text \<open>
  The loop of \<^verbatim>\<open>save_chapters_to_db\<close>:
  \<^verbatim>\<open>for chapter in chapters:
      if None not in (chapter["start_page"], chapter["end_page"]):
          c.execute("INSERT INTO chapters VALUES (?, ?, ?, ?)", ...)\<close>
\<close>

fun insert_chapters :: "chapter_record list \<Rightarrow> db \<Rightarrow> db" where
  "insert_chapters [] d = d"
| "insert_chapters (ch # chs) d =
     (if start_page ch \<noteq> None \<and> end_page ch \<noteq> None
      then insert_chapters chs
             (insert_into_chapters (chapter_number ch, title ch, start_page ch, end_page ch) d)
      else insert_chapters chs d)"

definition save_chapters_to_db :: "chapter_record list \<Rightarrow> db \<Rightarrow> db" where
  "save_chapters_to_db chapters d = insert_chapters chapters (delete_from_chapters d)"

text \<open>\<^verbatim>\<open>int(v) if v else None\<close> on a column value: \<^verbatim>\<open>NULL\<close> and \<^verbatim>\<open>0\<close> are both falsy.\<close>

definition int_if_truthy :: "int option \<Rightarrow> int option" where
  "int_if_truthy v = (case v of None \<Rightarrow> None | Some n \<Rightarrow> if n \<noteq> 0 then Some n else None)"

definition chapter_of_row :: "row \<Rightarrow> chapter_record" where
  "chapter_of_row r =
     (case r of (r0, r1, r2, r3) \<Rightarrow>
        \<lparr>chapter_number = r0, title = r1,
         start_page = int_if_truthy r2, end_page = int_if_truthy r3\<rparr>)"

definition get_chapters_from_db :: "db \<Rightarrow> chapter_record list" where
  "get_chapters_from_db d = map chapter_of_row d"

text \<open>\<^verbatim>\<open>return chapters[0]["start_page"] if chapters else 1\<close>\<close>

definition get_first_chapter_start_page :: "db \<Rightarrow> int option" where
  "get_first_chapter_start_page d =
     (case get_chapters_from_db d of [] \<Rightarrow> Some 1 | ch # _ \<Rightarrow> start_page ch)"

section \<open>The document\<close>

text \<open>
  What the code reads of the opened PDF. A font size is a float that the code only
  negates and compares; it is modelled as a rational. A span is a dictionary, of which
  the code reads
  \<^verbatim>\<open>span["size"]\<close>, \<^verbatim>\<open>span["text"]\<close> and whether the keys \<^verbatim>\<open>"color"\<close> and \<^verbatim>\<open>"bold"\<close>
  are present (\<open>span_keys\<close> lists the keys of the dictionary). A block has its lines under
  the key \<^verbatim>\<open>"lines"\<close>, or has no such key. A page gives its plain text
  (\<^verbatim>\<open>page.get_text("text")\<close>) and its blocks (\<^verbatim>\<open>page.get_text("dict")["blocks"]\<close>).
\<close>

record span =
  span_size :: rat
  span_text :: pystr
  span_keys :: "string list"

datatype block = Lines "span list list" | NoLines

record page =
  page_text :: pystr
  page_blocks :: "block list"

type_synonym document = "page list"

text \<open>
  \<^verbatim>\<open>for i, page in enumerate(doc): if start_page <= i + 1 <= end_page: ...\<close>
  The pages the body of the loop runs on, in order; \<open>i\<close> is the index of the first
  page of the list.
\<close>

fun pages_in_range :: "nat \<Rightarrow> page list \<Rightarrow> int \<Rightarrow> int \<Rightarrow> page list" where
  "pages_in_range i [] start_p end_p = []"
| "pages_in_range i (p # ps) start_p end_p =
     (if start_p \<le> int i + 1 \<and> int i + 1 \<le> end_p
      then p # pages_in_range (Suc i) ps start_p end_p
      else pages_in_range (Suc i) ps start_p end_p)"

section \<open>extract_text_from_pdf (app.py)\<close>

definition extract_text_from_pdf :: "document \<Rightarrow> int \<Rightarrow> int \<Rightarrow> pystr" where
  "extract_text_from_pdf doc start_p end_p =
     (let text = map page_text (pages_in_range 0 doc start_p end_p)
      in if text \<noteq> [] then str_join NL text else [])"

section \<open>extract_chapter (app.py)\<close>

datatype error = TypeError | ValueError pystr

text \<open>
  Lines 92 to 94: \<^verbatim>\<open>adjustment = first_chapter_first_page - first_chapter_start_page_doc\<close>,
  then both bounds are shifted by it.
\<close>

definition adjust_pages :: "int \<Rightarrow> int \<Rightarrow> int \<Rightarrow> int \<Rightarrow> int \<times> int" where
  "adjust_pages start_p end_p first_chapter_first_page first_chapter_start_page_doc =
     (let adjustment = first_chapter_first_page - first_chapter_start_page_doc
      in (start_p + adjustment, end_p + adjustment))"

text \<open>
  Lines 91 to 94. The subtraction raises \<^verbatim>\<open>TypeError\<close> when
  \<^verbatim>\<open>get_first_chapter_start_page()\<close> returned \<^verbatim>\<open>None\<close>.
\<close>

definition resolve_pages :: "db \<Rightarrow> int \<Rightarrow> int \<Rightarrow> int \<Rightarrow> error + int \<times> int" where
  "resolve_pages d start_p end_p first_chapter_first_page =
     (case get_first_chapter_start_page d of
        None \<Rightarrow> Inl TypeError
      | Some first_chapter_start_page_doc \<Rightarrow>
          Inr (adjust_pages start_p end_p first_chapter_first_page
                 first_chapter_start_page_doc))"

text \<open>
  The four nested loops over blocks, lines and spans visit the spans of the pages in
  range in document order; a block without the key \<^verbatim>\<open>"lines"\<close> is skipped.
\<close>

definition spans_of_block :: "block \<Rightarrow> span list" where
  "spans_of_block b = (case b of Lines ls \<Rightarrow> concat ls | NoLines \<Rightarrow> [])"

definition spans_of_page :: "page \<Rightarrow> span list" where
  "spans_of_page p = concat (map spans_of_block (page_blocks p))"

definition spans_in_range :: "document \<Rightarrow> int \<Rightarrow> int \<Rightarrow> span list" where
  "spans_in_range doc start_p end_p =
     concat (map spans_of_page (pages_in_range 0 doc start_p end_p))"

text \<open>
  \<^verbatim>\<open>font_sizes[span["size"]] = font_sizes.get(span["size"], 0) + len(span["text"].split())\<close>
  The dictionary keeps its keys in insertion order; an assignment to a key it holds keeps
  the key's place.
\<close>

definition count_span :: "(rat \<times> nat) list \<Rightarrow> span \<Rightarrow> (rat \<times> nat) list" where
  "count_span font_sizes sp =
     AList.update (span_size sp)
       ((case map_of font_sizes (span_size sp) of None \<Rightarrow> 0 | Some n \<Rightarrow> n)
          + length (str_split (span_text sp)))
       font_sizes"

definition font_histogram :: "span list \<Rightarrow> (rat \<times> nat) list" where
  "font_histogram spans = foldl count_span [] spans"

text \<open>\<^verbatim>\<open>sorted(font_sizes.items(), key=lambda x: -x[0])\<close>; both sorts are stable.\<close>

definition sorted_sizes :: "(rat \<times> nat) list \<Rightarrow> (rat \<times> nat) list" where
  "sorted_sizes font_sizes = sort_key (\<lambda>x. - fst x) font_sizes"

definition max_words :: nat where
  "max_words = 2000"

text \<open>
  The selection loop, with \<^verbatim>\<open>selected_sizes\<close> and \<^verbatim>\<open>total_words\<close> as its state:
  \<^verbatim>\<open>for size, words in sorted_sizes:
      if total_words + words <= max_words:
          selected_sizes.append(size)
          total_words += words
      else:
          break\<close>
\<close>

fun select_sizes :: "(rat \<times> nat) list \<Rightarrow> rat list \<Rightarrow> nat \<Rightarrow> rat list \<times> nat" where
  "select_sizes [] selected_sizes total_words = (selected_sizes, total_words)"
| "select_sizes ((size', words) # rest) selected_sizes total_words =
     (if total_words + words \<le> max_words
      then select_sizes rest (selected_sizes @ [size']) (total_words + words)
      else (selected_sizes, total_words))"

text \<open>
  The second pass:
  \<^verbatim>\<open>if span["size"] in selected_sizes or "color" in span or "bold" in span:
      headings.append(span["text"])\<close>
\<close>

definition emitted :: "rat list \<Rightarrow> span \<Rightarrow> bool" where
  "emitted selected_sizes sp \<longleftrightarrow>
     span_size sp \<in> set selected_sizes \<or> ''color'' \<in> set (span_keys sp) \<or>
     ''bold'' \<in> set (span_keys sp)"

definition collect_headings :: "rat list \<Rightarrow> span list \<Rightarrow> pystr list" where
  "collect_headings selected_sizes spans = map span_text (filter (emitted selected_sizes) spans)"

text \<open>The sizes the first pass selects for a page range.\<close>

definition selected_in_range :: "document \<Rightarrow> int \<Rightarrow> int \<Rightarrow> rat list" where
  "selected_in_range doc start_p end_p =
     fst (select_sizes (sorted_sizes (font_histogram (spans_in_range doc start_p end_p)))
            [] 0)"

definition chapter_headings :: "document \<Rightarrow> int \<Rightarrow> int \<Rightarrow> pystr" where
  "chapter_headings doc start_p end_p =
     (let headings = collect_headings (selected_in_range doc start_p end_p)
                       (spans_in_range doc start_p end_p)
      in if headings \<noteq> [] then str_join NL headings else [])"

text \<open>
  The whole function. The table is read by \<^verbatim>\<open>get_first_chapter_start_page()\<close>, the
  document is the opened PDF, and the three numbers are integers (the page bounds of the
  chosen chapter and the number the user entered). The two \<^verbatim>\<open>print\<close> calls write to the
  console only and are left out.
\<close>

definition extract_chapter :: "db \<Rightarrow> document \<Rightarrow> int \<Rightarrow> int \<Rightarrow> int \<Rightarrow> error + pystr" where
  "extract_chapter d doc start_p end_p first_chapter_first_page =
     (case resolve_pages d start_p end_p first_chapter_first_page of
        Inl e \<Rightarrow> Inl e
      | Inr (start_q, end_q) \<Rightarrow> Inr (chapter_headings doc start_q end_q))"

section \<open>detect_toc (app.py)\<close>

text \<open>The prompt: an f-string with the index text in it.\<close>

definition toc_prompt :: "pystr \<Rightarrow> pystr" where
  \<open>toc_prompt text' =
     py ''\<newline>    Extract the structured Table of Contents from the given text.\<newline>    Identify the chapter numbers, titles, and their respective start and end pages.\<newline>    Ensure that both structured and unstructured formats are considered and return JSON output.\<newline>\<newline>    Example JSON Output:\<newline>    [\<newline>        {"chapter_number": "1", "title": "Introduction", "start_page": 1, "end_page": 10},\<newline>        {"chapter_number": "2", "title": "Basics", "start_page": 11, "end_page": 20}\<newline>    ]\<newline>\<newline>    Text:\<newline>    ''
     @ text' @ py ''\<newline>    ''\<close>

text \<open>
  \<^verbatim>\<open>re.search(r"\[.*\]", s, re.DOTALL)\<close>. With \<^verbatim>\<open>re.DOTALL\<close> the dot matches every
  character. \<open>greedy_close s\<close> is what \<^verbatim>\<open>.*\]\<close> matches at the start of \<open>s\<close>: the
  star takes all of \<open>s\<close> and gives characters back until a \<^verbatim>\<open>]\<close> follows, so the match
  ends at the last \<^verbatim>\<open>]\<close> of \<open>s\<close>. The search tries the start positions from left to
  right and returns the first match (\<^verbatim>\<open>match.group(0)\<close>), or \<open>None\<close>.
\<close>

fun greedy_close :: "pystr \<Rightarrow> pystr option" where
  "greedy_close [] = None"
| "greedy_close (c # cs) =
     (case greedy_close cs of
        Some m \<Rightarrow> Some (c # m)
      | None \<Rightarrow> if c = 0x5D then Some [c] else None)"

fun search_brackets :: "pystr \<Rightarrow> pystr option" where
  "search_brackets [] = None"
| "search_brackets (c # cs) =
     (if c = 0x5B
      then (case greedy_close cs of
              Some m \<Rightarrow> Some (c # m)
            | None \<Rightarrow> search_brackets cs)
      else search_brackets cs)"

text \<open>
  The response of the model is the content of the message \<^verbatim>\<open>llm.invoke(prompt)\<close>
  returns (the message itself is an object, and truthy); \<open>llm\<close> maps the prompt to it.
  \<open>loads\<close> is \<^verbatim>\<open>json.loads\<close> on a text that starts with \<^verbatim>\<open>[\<close>, as every text the
  search returns does: \<open>None\<close> when it raises \<^verbatim>\<open>JSONDecodeError\<close>, the elements of the
  decoded array otherwise. The result is the list of the messages shown with
  \<^verbatim>\<open>st.error\<close> and the value returned.
\<close>

definition detect_toc ::
  "(pystr \<Rightarrow> pystr) \<Rightarrow> (pystr \<Rightarrow> 'j list option) \<Rightarrow> pystr \<Rightarrow> pystr list \<times> 'j list" where
  "detect_toc llm loads text' =
     (let response = llm (toc_prompt text') in
      if str_strip response = []
      then ([py ''Error: Empty response from LLM while detecting TOC.''], [])
      else
        (case search_brackets response of
           Some extracted_json \<Rightarrow>
             (case loads extracted_json of
                Some chapters \<Rightarrow> ([], chapters)
              | None \<Rightarrow> ([py ''Error: Invalid JSON response from LLM while detecting TOC.''], []))
         | None \<Rightarrow> ([py ''Error: No valid JSON found in response.''], [])))"

section \<open>detect_toc (app1.py)\<close>

definition toc_prompt_app1 :: "pystr \<Rightarrow> pystr" where
  \<open>toc_prompt_app1 text' =
     py ''\<newline>    Extract the Table of Contents or Index page which has the following content or headings in that page CHAPTER NUMBER,CONTENTS from the given text and return a valid JSON array.\<newline>    Each item should have:\<newline>    - "chapter_number": (string)\<newline>    - "title": (string)\<newline>    - "start_page": (integer)\<newline>    - "end_page": (integer)\<newline>\<newline>    Example JSON Output:\<newline>    [\<newline>        {"chapter_number": "1", "title": "Introduction", "start_page": 1, "end_page": 10},\<newline>        {"chapter_number": "2", "title": "Basics", "start_page": 11, "end_page": 20}\<newline>    ]\<newline>\<newline>    Text:\<newline>    ''
     @ text' @ py ''\<newline>    ''\<close>

text \<open>
  \<^verbatim>\<open>re.search(r"\[\s*\{.*?\}\s*\]", s, re.DOTALL)\<close>. \<open>close_at s\<close> is what
  \<^verbatim>\<open>\}\s*\]\<close> matches at the start of \<open>s\<close>: neither brace nor bracket is whitespace, so
  \<^verbatim>\<open>\s*\<close> can only take the whole run of whitespace. \<open>lazy_close s\<close> is what
  \<^verbatim>\<open>.*?\}\s*\]\<close> matches at the start of \<open>s\<close>: the lazy star takes as few characters as
  a match allows. \<open>array_at s\<close> is the whole pattern at the start of \<open>s\<close>.
\<close>

definition close_at :: "pystr \<Rightarrow> pystr option" where
  "close_at s =
     (case s of
        [] \<Rightarrow> None
      | c # cs \<Rightarrow>
          if c = 0x7D
          then (case dropWhile isspace cs of
                  [] \<Rightarrow> None
                | b # _ \<Rightarrow> if b = 0x5D then Some (c # takeWhile isspace cs @ [b]) else None)
          else None)"

fun lazy_close :: "pystr \<Rightarrow> pystr option" where
  "lazy_close [] = None"
| "lazy_close (c # cs) =
     (case close_at (c # cs) of
        Some m \<Rightarrow> Some m
      | None \<Rightarrow> (case lazy_close cs of Some m \<Rightarrow> Some (c # m) | None \<Rightarrow> None))"

definition array_at :: "pystr \<Rightarrow> pystr option" where
  "array_at s =
     (case s of
        [] \<Rightarrow> None
      | c # cs \<Rightarrow>
          if c = 0x5B
          then (case dropWhile isspace cs of
                  [] \<Rightarrow> None
                | b # bs \<Rightarrow>
                    if b = 0x7B
                    then (case lazy_close bs of
                            Some m \<Rightarrow> Some (c # takeWhile isspace cs @ b # m)
                          | None \<Rightarrow> None)
                    else None)
          else None)"

fun search_array :: "pystr \<Rightarrow> pystr option" where
  "search_array [] = None"
| "search_array (c # cs) =
     (case array_at (c # cs) of Some m \<Rightarrow> Some m | None \<Rightarrow> search_array cs)"

text \<open>
  Here every failure is raised as a \<^verbatim>\<open>ValueError\<close> with its message; the
  \<^verbatim>\<open>JSONDecodeError\<close> of \<^verbatim>\<open>json.loads\<close> is caught and raised again as one.
\<close>

definition detect_toc_app1 ::
  "(pystr \<Rightarrow> pystr) \<Rightarrow> (pystr \<Rightarrow> 'j list option) \<Rightarrow> pystr \<Rightarrow> error + 'j list" where
  "detect_toc_app1 llm loads text' =
     (let response = llm (toc_prompt_app1 text') in
      if str_strip response = []
      then Inl (ValueError (py ''Groq returned an empty response''))
      else
        (case search_array response of
           None \<Rightarrow> Inl (ValueError (py ''Invalid JSON from Groq: '' @ response))
         | Some extracted_json \<Rightarrow>
             (case loads extracted_json of
                Some chapters \<Rightarrow> Inr chapters
              | None \<Rightarrow>
                  Inl (ValueError (py ''Failed to parse extracted JSON: '' @ extracted_json)))))"

section \<open>Notions used in the statements\<close>

text \<open>The row \<^verbatim>\<open>save_chapters_to_db\<close> inserts for a chapter, and the test it inserts under.\<close>

definition row_of_chapter :: "chapter_record \<Rightarrow> row" where
  "row_of_chapter ch = (chapter_number ch, title ch, start_page ch, end_page ch)"

definition has_both_pages :: "chapter_record \<Rightarrow> bool" where
  "has_both_pages ch \<longleftrightarrow> start_page ch \<noteq> None \<and> end_page ch \<noteq> None"

text \<open>Chapter records and pages for the examples.\<close>

definition chA :: chapter_record where
  "chA = \<lparr>chapter_number = py ''1'', title = py ''Introduction'',
           start_page = Some 1, end_page = Some 10\<rparr>"

definition chB :: chapter_record where
  "chB = \<lparr>chapter_number = py ''2'', title = py ''Basics'',
           start_page = Some 11, end_page = Some 20\<rparr>"

definition chC :: chapter_record where
  "chC = \<lparr>chapter_number = py ''3'', title = py ''Methods'',
           start_page = Some 21, end_page = Some 30\<rparr>"

definition chN :: chapter_record where
  "chN = \<lparr>chapter_number = py ''4'', title = py ''Appendix'',
           start_page = Some 31, end_page = None\<rparr>"

definition pg :: "string \<Rightarrow> page" where
  "pg s = \<lparr>page_text = py s, page_blocks = []\<rparr>"

text \<open>Spans and a document for the examples; \<open>filler n\<close> is a text of \<open>n\<close> words.\<close>

definition filler :: "nat \<Rightarrow> pystr" where
  "filler n = concat (replicate n (py ''a ''))"

definition span_big :: span where
  "span_big = \<lparr>span_size = 20, span_text = py ''Chapter One'', span_keys = [''size'', ''text'']\<rparr>"

definition span_body :: span where
  "span_body = \<lparr>span_size = 10, span_text = filler 2001, span_keys = [''size'', ''text'']\<rparr>"

definition span_small_bold :: span where
  "span_small_bold = \<lparr>span_size = 8, span_text = py ''note'', span_keys = [''size'', ''text'', ''bold'']\<rparr>"

definition doc1 :: document where
  "doc1 = [\<lparr>page_text = py ''front'', page_blocks = []\<rparr>,
           \<lparr>page_text = py ''Chapter One a a a note'',
            page_blocks = [Lines [[span_big], [span_body, span_small_bold]], NoLines]\<rparr>]"

text \<open>
  A page whose spans give the histogram \<open>{10: 5000, 20: 500, 14: 1800}\<close>, the body text
  first.
\<close>

definition span_of_words :: "rat \<Rightarrow> nat \<Rightarrow> span" where
  "span_of_words sz n = \<lparr>span_size = sz, span_text = filler n, span_keys = [''size'', ''text'']\<rparr>"

definition doc2 :: document where
  "doc2 = [\<lparr>page_text = [],
            page_blocks = [Lines [[span_of_words 10 5000], [span_of_words 20 500]],
                           Lines [[span_of_words 14 1800]]]\<rparr>]"

text \<open>
  A stand-in for \<^verbatim>\<open>json.loads\<close> in the examples: it decodes the two arrays below (an
  empty object is decoded to \<open>()\<close>) and rejects every other text.
\<close>

definition loads_example :: "pystr \<Rightarrow> unit list option" where
  "loads_example s =
     (if s = py ''[]'' then Some []
      else if s = py ''[{}, {}]'' then Some [(), ()]
      else None)"

section \<open>The chapter table: replace and load\<close>

lemma insert_chapters_filter:
  "insert_chapters chs d = d @ map row_of_chapter (filter has_both_pages chs)"
  by (induction chs arbitrary: d)
     (simp_all add: insert_into_chapters_def row_of_chapter_def has_both_pages_def)

lemma save_chapters_filter:
  "save_chapters_to_db chs d = map row_of_chapter (filter has_both_pages chs)"
  by (simp add: save_chapters_to_db_def delete_from_chapters_def insert_chapters_filter)

lemma chapter_of_row_of_chapter:
  assumes "start_page ch \<noteq> Some 0" "end_page ch \<noteq> Some 0"
  shows "chapter_of_row (row_of_chapter ch) = ch"
  using assms
  by (cases ch)
     (auto simp: chapter_of_row_def row_of_chapter_def int_if_truthy_def split: option.splits)

text \<open>
  C6, as amended. Each \<^verbatim>\<open>save_chapters_to_db\<close> clears the table before it inserts, so
  after a save of \<open>xs\<close> and then a save of \<open>ys\<close> nothing of \<open>xs\<close> or of the earlier table
  is left, and \<^verbatim>\<open>get_chapters_from_db\<close> returns, in the order of \<open>ys\<close>, exactly the records
  of \<open>ys\<close> that have both page bounds (page numbers other than 0): \<open>[C]\<close> for
  \<open>ys = [C]\<close> when \<open>C\<close> has both bounds, and nothing when it lacks one.
\<close>

theorem replace_then_load:
  assumes "\<forall>ch \<in> set ys. start_page ch \<noteq> Some 0 \<and> end_page ch \<noteq> Some 0"
  shows "get_chapters_from_db (save_chapters_to_db ys (save_chapters_to_db xs d)) =
           filter has_both_pages ys"
proof -
  have "map chapter_of_row (map row_of_chapter (filter has_both_pages ys)) =
          filter has_both_pages ys"
    using assms by (induction ys) (simp_all add: chapter_of_row_of_chapter)
  then show ?thesis
    by (simp add: get_chapters_from_db_def save_chapters_filter)
qed

theorem replace_then_load_witness:
  "get_chapters_from_db (save_chapters_to_db [chC] (save_chapters_to_db [chA, chB] [])) = [chC]"
  using replace_then_load [of "[chC]" "[chA, chB]" "[]"]
  by (simp add: chC_def has_both_pages_def)

text \<open>
  The claim as stated fails for a record without an end page: after the two saves the
  table is empty, not \<open>[C]\<close>.
\<close>

theorem replace_with_null_page_counterexample:
  "get_chapters_from_db (save_chapters_to_db [chN] (save_chapters_to_db [chA, chB] [])) = [] \<and>
   get_chapters_from_db (save_chapters_to_db [chN] (save_chapters_to_db [chA, chB] [])) \<noteq> [chN]"
  by (simp add: get_chapters_from_db_def save_chapters_to_db_def delete_from_chapters_def chN_def)

text \<open>
  C10. \<^verbatim>\<open>save_chapters_to_db\<close> of app.py leaves in the table exactly the rows of the
  records that have both page bounds, so every row of the table has both; when every
  record lacks a bound, the table is left empty.
\<close>

theorem save_drops_null_pages:
  "(\<forall>r \<in> set (save_chapters_to_db chs d). \<exists>cn t s e. r = (cn, t, Some s, Some e)) \<and>
   save_chapters_to_db chs d = map row_of_chapter (filter has_both_pages chs) \<and>
   ((\<forall>ch \<in> set chs. start_page ch = None \<or> end_page ch = None) \<longrightarrow>
      save_chapters_to_db chs d = [])"
proof (intro conjI impI)
  show "\<forall>r \<in> set (save_chapters_to_db chs d). \<exists>cn t s e. r = (cn, t, Some s, Some e)"
    by (auto simp: save_chapters_filter row_of_chapter_def has_both_pages_def)
  show "save_chapters_to_db chs d = map row_of_chapter (filter has_both_pages chs)"
    by (rule save_chapters_filter)
  assume "\<forall>ch \<in> set chs. start_page ch = None \<or> end_page ch = None"
  then have "filter has_both_pages chs = []"
    by (auto simp: filter_empty_conv has_both_pages_def)
  then show "save_chapters_to_db chs d = []"
    by (simp add: save_chapters_filter)
qed

theorem save_drops_null_pages_witness:
  "save_chapters_to_db [chA, chN] [row_of_chapter chB] = [(py ''1'', py ''Introduction'', Some 1, Some 10)] \<and>
   end_page chN = None \<and>
   save_chapters_to_db [chN] [row_of_chapter chB] = []"
  using save_drops_null_pages [of "[chA, chN]" "[row_of_chapter chB]"]
    save_drops_null_pages [of "[chN]" "[row_of_chapter chB]"]
  by (simp add: has_both_pages_def row_of_chapter_def chA_def chN_def)

section \<open>Page offsets\<close>

text \<open>
  C2, as amended. With no chapter in the table \<^verbatim>\<open>get_first_chapter_start_page\<close> returns
  the default 1, and the pages are shifted by the declared page minus 1: no error is
  raised. With a first chapter that has a start page, that page is the anchor. With a
  first chapter whose start page reads back as \<^verbatim>\<open>None\<close>, the subtraction raises
  \<^verbatim>\<open>TypeError\<close> and \<^verbatim>\<open>extract_chapter\<close> fails with it.
\<close>

theorem resolve_pages_anchor:
  "(get_chapters_from_db d = [] \<longrightarrow>
      get_first_chapter_start_page d = Some 1 \<and>
      resolve_pages d s e f = Inr (s + (f - 1), e + (f - 1)) \<and>
      extract_chapter d doc s e f = Inr (chapter_headings doc (s + (f - 1)) (e + (f - 1)))) \<and>
   (\<forall>ch chs a. get_chapters_from_db d = ch # chs \<and> start_page ch = Some a \<longrightarrow>
      resolve_pages d s e f = Inr (s + (f - a), e + (f - a)) \<and>
      extract_chapter d doc s e f = Inr (chapter_headings doc (s + (f - a)) (e + (f - a)))) \<and>
   (\<forall>ch chs. get_chapters_from_db d = ch # chs \<and> start_page ch = None \<longrightarrow>
      resolve_pages d s e f = Inl TypeError \<and> extract_chapter d doc s e f = Inl TypeError)"
  by (simp add: resolve_pages_def extract_chapter_def get_first_chapter_start_page_def
      adjust_pages_def Let_def)

theorem resolve_pages_anchor_witness:
  "get_chapters_from_db [] = [] \<and> get_first_chapter_start_page [] = Some 1 \<and>
   resolve_pages [] 5 9 10 = Inr (14, 18) \<and>
   get_chapters_from_db [row_of_chapter chB] = [chB] \<and>
   resolve_pages [row_of_chapter chB] 11 20 15 = Inr (15, 24) \<and>
   get_chapters_from_db [(py ''0'', py ''Preface'', Some 0, Some 4)] =
     [\<lparr>chapter_number = py ''0'', title = py ''Preface'', start_page = None,
       end_page = Some 4\<rparr>] \<and>
   extract_chapter [(py ''0'', py ''Preface'', Some 0, Some 4)] [] 0 4 1 = Inl TypeError"
  using resolve_pages_anchor [of "[]" 5 9 10 "[]"]
    resolve_pages_anchor [of "[row_of_chapter chB]" 11 20 15 "[]"]
    resolve_pages_anchor [of "[(py ''0'', py ''Preface'', Some 0, Some 4)]" 0 4 1 "[]"]
  by (simp add: get_chapters_from_db_def chapter_of_row_def row_of_chapter_def chB_def
      int_if_truthy_def)

text \<open>
  The claim as stated fails on the empty table: the anchor 1 is substituted, the pages
  5 to 9 with declared first page 10 become 14 to 18, and \<^verbatim>\<open>extract_chapter\<close> returns.
\<close>

theorem empty_store_anchor_counterexample:
  "get_first_chapter_start_page [] = Some 1 \<and> resolve_pages [] 5 9 10 = Inr (14, 18) \<and>
   extract_chapter [] [] 5 9 10 = Inr []"
  by (simp add: get_first_chapter_start_page_def get_chapters_from_db_def resolve_pages_def
      adjust_pages_def Let_def extract_chapter_def chapter_headings_def collect_headings_def
      spans_in_range_def)

text \<open>
  C5. With stored bounds \<open>s \<le> e\<close>, declared first page \<open>f\<close> and stored first page \<open>d\<close>, both
  bounds are shifted by \<open>f - d\<close>; shifting the result by \<open>d - f\<close>, which is the
  adjustment with the two anchors exchanged, gives \<open>(s, e)\<close> back. \<^verbatim>\<open>extract_chapter\<close>
  computes this shift whenever the first chapter of the table has the start page \<open>d\<close>.
\<close>

theorem offset_round_trip:
  assumes "s \<le> e"
  shows "adjust_pages s e f d = (s + (f - d), e + (f - d)) \<and>
         (case adjust_pages s e f d of (ps, pe) \<Rightarrow> (ps + (d - f), pe + (d - f))) = (s, e) \<and>
         adjust_pages (s + (f - d)) (e + (f - d)) d f = (s, e) \<and>
         (get_first_chapter_start_page db = Some d \<longrightarrow>
            resolve_pages db s e f = Inr (s + (f - d), e + (f - d)) \<and>
            extract_chapter db doc s e f =
              Inr (chapter_headings doc (s + (f - d)) (e + (f - d))))"
  by (simp add: adjust_pages_def resolve_pages_def extract_chapter_def Let_def)

theorem offset_round_trip_witness:
  "(3::int) \<le> 7 \<and> adjust_pages 3 7 12 1 = (14, 18) \<and> adjust_pages 14 18 1 12 = (3, 7) \<and>
   get_first_chapter_start_page [row_of_chapter chA] = Some 1 \<and>
   resolve_pages [row_of_chapter chA] 3 7 12 = Inr (14, 18)"
  using offset_round_trip [of 3 7 12 1 "[row_of_chapter chA]" "[]"]
  by (simp add: get_first_chapter_start_page_def get_chapters_from_db_def chapter_of_row_def
      row_of_chapter_def chA_def int_if_truthy_def Let_def)

section \<open>The text of a page range\<close>

lemma pages_in_range_nth:
  "pages_in_range k ps s e =
     map (\<lambda>i. ps ! i)
       (filter (\<lambda>i. s \<le> int (k + i) + 1 \<and> int (k + i) + 1 \<le> e) [0..<length ps])"
proof (induction ps arbitrary: k)
  case Nil
  show ?case by simp
next
  case (Cons p ps)
  have upt: "[0..<length (p # ps)] = 0 # map Suc [0..<length ps]"
    by (simp add: upt_conv_Cons map_Suc_upt del: upt_Suc)
  show ?case
    unfolding upt by (simp add: Cons.IH filter_map o_def)
qed

text \<open>
  C9. \<^verbatim>\<open>extract_text_from_pdf\<close> returns the texts of the pages whose position, counted
  from 1, lies between \<open>s\<close> and \<open>e\<close>, in page order and joined by newlines; when \<open>s\<close> is
  above \<open>e\<close>, or the range lies past the last page or before the first, the result is
  the empty string. The function has no error result.
\<close>

theorem extract_text_from_pdf_pages:
  "extract_text_from_pdf doc s e =
     str_join NL (map (\<lambda>i. page_text (doc ! i))
       (filter (\<lambda>i. s \<le> int i + 1 \<and> int i + 1 \<le> e) [0..<length doc])) \<and>
   (e < s \<or> int (length doc) < s \<or> e < 1 \<longrightarrow> extract_text_from_pdf doc s e = [])"
proof (intro conjI impI)
  let ?sel = "filter (\<lambda>i. s \<le> int i + 1 \<and> int i + 1 \<le> e) [0..<length doc]"
  have pages: "map page_text (pages_in_range 0 doc s e) = map (\<lambda>i. page_text (doc ! i)) ?sel"
    by (simp add: pages_in_range_nth o_def)
  show "extract_text_from_pdf doc s e = str_join NL (map (\<lambda>i. page_text (doc ! i)) ?sel)"
    unfolding extract_text_from_pdf_def Let_def pages
    by (cases "map (\<lambda>i. page_text (doc ! i)) ?sel") simp_all
  assume "e < s \<or> int (length doc) < s \<or> e < 1"
  then have "?sel = []"
    by (auto simp: filter_empty_conv)
  then show "extract_text_from_pdf doc s e = []"
    unfolding extract_text_from_pdf_def Let_def pages by simp
qed

theorem extract_text_from_pdf_pages_witness:
  "extract_text_from_pdf [pg ''a'', pg ''b'', pg ''c''] 2 3 = py ''b\<newline>c'' \<and>
   extract_text_from_pdf [pg ''a'', pg ''b'', pg ''c''] 3 2 = [] \<and>
   extract_text_from_pdf [pg ''a'', pg ''b'', pg ''c''] 4 9 = [] \<and>
   extract_text_from_pdf [pg ''a'', pg ''b'', pg ''c''] (-3) 0 = []"
  using extract_text_from_pdf_pages [of "[pg ''a'', pg ''b'', pg ''c'']" 2 3]
    extract_text_from_pdf_pages [of "[pg ''a'', pg ''b'', pg ''c'']" 3 2]
    extract_text_from_pdf_pages [of "[pg ''a'', pg ''b'', pg ''c'']" 4 9]
    extract_text_from_pdf_pages [of "[pg ''a'', pg ''b'', pg ''c'']" "-3" 0]
  by (simp add: pg_def py_def NL_def upt_conv_Cons del: upt_Suc)

section \<open>The font histogram and the selected sizes\<close>

lemma sorted_sizes_unique:
  assumes "distinct (map fst xs)" "set xs = set ys" "distinct ys"
    and "sorted (map (\<lambda>x. - fst x) ys)"
  shows "sorted_sizes xs = ys"
  unfolding sorted_sizes_def
proof (rule sort_key_inj_key_eq)
  from assms(1) have dx: "distinct xs" and inj: "inj_on fst (set xs)"
    by (simp_all add: distinct_map)
  from dx assms(2,3) show "mset xs = mset ys"
    by (simp add: set_eq_iff_mset_eq_distinct [symmetric])
  from inj show "inj_on (\<lambda>x. - fst x) (set xs)"
    by (auto simp: inj_on_def)
  show "sorted (map (\<lambda>x. - fst x) ys)" by (rule assms(4))
qed

lemma select_sizes_budget:
  "total_words \<le> max_words \<Longrightarrow> snd (select_sizes xs sel total_words) \<le> max_words"
  by (induction xs sel total_words rule: select_sizes.induct) simp_all

lemma font_histogram_distinct: "distinct (map fst (font_histogram spans))"
proof -
  have "distinct (map fst acc) \<Longrightarrow> distinct (map fst (foldl count_span acc spans))" for acc
    by (induction spans arbitrary: acc) (simp_all add: count_span_def distinct_update)
  then show ?thesis by (simp add: font_histogram_def)
qed

text \<open>
  C1, as amended. For the histogram \<open>{20: 500, 14: 1800, 10: 5000}\<close>, in whatever order
  its sizes were first seen, the sizes are sorted as 20, 14, 10 and the loop tests the
  budget before it accepts: size 20 is accepted (total 500), size 14 is refused because
  500 + 1800 is above 2000, and the loop stops. The selected sizes are \<open>[20]\<close> and the
  total is 500. For every histogram the total stays within the budget.
\<close>

theorem font_histogram_cutoff:
  assumes "set (font_histogram spans) = {(20, 500), (14, 1800), (10, 5000)}"
  shows "sorted_sizes (font_histogram spans) = [(20, 500), (14, 1800), (10, 5000)] \<and>
         select_sizes (sorted_sizes (font_histogram spans)) [] 0 = ([20], 500) \<and>
         (spans_in_range doc s e = spans \<longrightarrow> selected_in_range doc s e = [20]) \<and>
         (\<forall>hist. snd (select_sizes (sorted_sizes hist) [] 0) \<le> max_words)"
proof -
  have srt: "sorted_sizes (font_histogram spans) = [(20, 500), (14, 1800), (10, 5000)]"
    by (rule sorted_sizes_unique [OF font_histogram_distinct]) (simp_all add: assms)
  have sel: "select_sizes [(20, 500), (14, 1800), (10, 5000)] [] 0 = ([20], 500)"
    by (simp add: max_words_def)
  have b: "snd (select_sizes (sorted_sizes hist) [] 0) \<le> max_words" for hist
    by (rule select_sizes_budget) simp
  have rng: "selected_in_range doc s e = [20]" if "spans_in_range doc s e = spans"
    unfolding selected_in_range_def that srt sel by simp
  from srt sel rng b show ?thesis
    by simp
qed

lemma str_split_filler: "str_split (filler n) = replicate n (py ''a'')"
  by (induction n) (simp_all add: str_split_def filler_def py_def isspace_def)

lemma spans_doc2:
  "spans_in_range doc2 1 1 = [span_of_words 10 5000, span_of_words 20 500, span_of_words 14 1800]"
  by (simp add: spans_in_range_def doc2_def spans_of_page_def spans_of_block_def)

lemma histogram_doc2:
  "font_histogram (spans_in_range doc2 1 1) = [(10, 5000), (20, 500), (14, 1800)]"
  unfolding spans_doc2
  by (simp add: font_histogram_def count_span_def span_of_words_def str_split_filler)

theorem font_histogram_cutoff_witness:
  "font_histogram (spans_in_range doc2 1 1) = [(10, 5000), (20, 500), (14, 1800)] \<and>
   select_sizes (sorted_sizes (font_histogram (spans_in_range doc2 1 1))) [] 0 = ([20], 500) \<and>
   selected_in_range doc2 1 1 = [20]"
  using font_histogram_cutoff [of "spans_in_range doc2 1 1" doc2 1 1]
  by (simp add: histogram_doc2 insert_commute max_words_def)

text \<open>
  The claim as stated fails: size 14 is not selected, and the total is 500, not 2300.
\<close>

theorem accept_size_14_counterexample:
  "font_histogram (spans_in_range doc2 1 1) = [(10, 5000), (20, 500), (14, 1800)] \<and>
   select_sizes (sorted_sizes (font_histogram (spans_in_range doc2 1 1))) [] 0 = ([20], 500) \<and>
   selected_in_range doc2 1 1 \<noteq> [20, 14] \<and>
   \<not> (500 + 1800 \<le> max_words)"
  by (simp add: histogram_doc2 selected_in_range_def sorted_sizes_def max_words_def)

section \<open>The second pass\<close>

lemma str_join_contains:
  "x \<in> set xs \<Longrightarrow> \<exists>a b. str_join sep xs = a @ x @ b"
proof (induction sep xs rule: str_join.induct)
  case (1 sep)
  then show ?case by simp
next
  case (2 sep y)
  then have "str_join sep [y] = [] @ x @ []" by simp
  then show ?case by blast
next
  case (3 sep y z zs)
  show ?case
  proof (cases "x = y")
    case True
    then have "str_join sep (y # z # zs) = [] @ x @ (sep @ str_join sep (z # zs))" by simp
    then show ?thesis by blast
  next
    case False
    with "3.prems" have "x \<in> set (z # zs)" by simp
    from "3.IH" [OF this] obtain a b where "str_join sep (z # zs) = a @ x @ b" by blast
    then have "str_join sep (y # z # zs) = (y @ sep @ a) @ x @ b" by simp
    then show ?thesis by blast
  qed
qed

text \<open>
  C8. In the page range \<^verbatim>\<open>extract_chapter\<close> resolves, every span whose size is among the
  selected sizes, and every span that has the key \<^verbatim>\<open>"bold"\<close> or the key \<^verbatim>\<open>"color"\<close>
  whatever its size, has its text among the collected headings; the result is these
  headings joined by newlines, so the text of the span is part of it.
\<close>

theorem style_override:
  assumes "resolve_pages d start_p end_p f = Inr (s, e)"
    and "sp \<in> set (spans_in_range doc s e)"
    and "span_size sp \<in> set (selected_in_range doc s e) \<or>
         ''bold'' \<in> set (span_keys sp) \<or> ''color'' \<in> set (span_keys sp)"
  shows "span_text sp \<in> set (collect_headings (selected_in_range doc s e) (spans_in_range doc s e)) \<and>
         extract_chapter d doc start_p end_p f =
           Inr (str_join NL (collect_headings (selected_in_range doc s e) (spans_in_range doc s e))) \<and>
         (\<exists>a b. extract_chapter d doc start_p end_p f = Inr (a @ span_text sp @ b))"
proof -
  let ?hs = "collect_headings (selected_in_range doc s e) (spans_in_range doc s e)"
  from assms(3) have "emitted (selected_in_range doc s e) sp"
    by (auto simp: emitted_def)
  with assms(2) have mem: "span_text sp \<in> set ?hs"
    by (simp add: collect_headings_def)
  then have ne: "?hs \<noteq> []" by auto
  have out: "extract_chapter d doc start_p end_p f = Inr (str_join NL ?hs)"
    using ne by (simp add: extract_chapter_def assms(1) chapter_headings_def Let_def)
  from str_join_contains [OF mem] obtain a b where "str_join NL ?hs = a @ span_text sp @ b"
    by blast
  with mem out show ?thesis by auto
qed

lemma spans_doc1: "spans_in_range doc1 2 2 = [span_big, span_body, span_small_bold]"
  by (simp add: spans_in_range_def doc1_def spans_of_page_def spans_of_block_def)

lemma histogram_doc1: "font_histogram (spans_in_range doc1 2 2) = [(20, 2), (10, 2001), (8, 1)]"
  unfolding spans_doc1
  by (simp add: font_histogram_def count_span_def span_big_def span_body_def span_small_bold_def
      str_split_filler) (simp add: str_split_def py_def isspace_def)

lemma selected_doc1: "selected_in_range doc1 2 2 = [20]"
  unfolding selected_in_range_def histogram_doc1
  by (simp add: sorted_sizes_def max_words_def)

theorem style_override_witness:
  "resolve_pages [] 2 2 1 = Inr (2, 2) \<and> spans_in_range doc1 2 2 = [span_big, span_body, span_small_bold] \<and>
   selected_in_range doc1 2 2 = [20] \<and> span_size span_small_bold = 8 \<and>
   ''bold'' \<in> set (span_keys span_small_bold) \<and>
   extract_chapter [] doc1 2 2 1 = Inr (py ''Chapter One\<newline>note'')"
proof -
  have r: "resolve_pages [] 2 2 1 = Inr (2, 2)"
    by (simp add: resolve_pages_def get_first_chapter_start_page_def get_chapters_from_db_def
        adjust_pages_def)
  have m: "span_small_bold \<in> set (spans_in_range doc1 2 2)"
    by (simp add: spans_doc1)
  have b: "span_size span_small_bold \<in> set (selected_in_range doc1 2 2) \<or>
           ''bold'' \<in> set (span_keys span_small_bold) \<or> ''color'' \<in> set (span_keys span_small_bold)"
    by (simp add: span_small_bold_def)
  have hs: "collect_headings [20] [span_big, span_body, span_small_bold] = [py ''Chapter One'', py ''note'']"
    by (simp add: collect_headings_def emitted_def span_big_def span_body_def span_small_bold_def)
  from style_override [OF r m b]
  have "extract_chapter [] doc1 2 2 1 = Inr (py ''Chapter One\<newline>note'')"
    unfolding selected_doc1 spans_doc1 hs by (simp add: NL_def py_def)
  with r show ?thesis
    by (simp add: spans_doc1 selected_doc1 span_small_bold_def)
qed

section \<open>The response of the model\<close>

lemma bracket_not_space: "\<not> isspace 0x5B" "\<not> isspace 0x5D" "\<not> isspace 0x7B" "\<not> isspace 0x7D"
  by (simp_all add: isspace_def)

lemma str_strip_empty_iff: "str_strip s = [] \<longleftrightarrow> (\<forall>c \<in> set s. isspace c)"
proof
  assume "str_strip s = []"
  then have all: "\<forall>c \<in> set (dropWhile isspace s). isspace c"
    by (simp add: str_strip_def dropWhile_eq_Nil_conv)
  have "dropWhile isspace s = []"
  proof (rule ccontr)
    assume ne: "dropWhile isspace s \<noteq> []"
    then have "\<not> isspace (hd (dropWhile isspace s))" by (rule hd_dropWhile)
    moreover from ne have "hd (dropWhile isspace s) \<in> set (dropWhile isspace s)" by simp
    ultimately show False using all by blast
  qed
  then show "\<forall>c \<in> set s. isspace c" by (simp add: dropWhile_eq_Nil_conv)
next
  assume "\<forall>c \<in> set s. isspace c"
  then have d: "dropWhile isspace s = []" by (simp add: dropWhile_eq_Nil_conv)
  show "str_strip s = []" unfolding str_strip_def d by simp
qed

lemma greedy_close_None_iff: "greedy_close s = None \<longleftrightarrow> 0x5D \<notin> set s"
  by (induction s) (auto split: option.splits)

lemma greedy_close_last:
  "0x5D \<notin> set post \<Longrightarrow> greedy_close (xs @ 0x5D # post) = Some (xs @ [0x5D])"
proof (induction xs)
  case Nil
  then have "greedy_close post = None" by (simp add: greedy_close_None_iff)
  then show ?case by simp
next
  case (Cons x xs)
  then show ?case by simp
qed

lemma search_brackets_skip:
  "0x5B \<notin> set pre \<Longrightarrow> search_brackets (pre @ s) = search_brackets s"
  by (induction pre) simp_all

lemma search_brackets_first_last:
  assumes "0x5B \<notin> set pre" "0x5D \<notin> set post"
  shows "search_brackets (pre @ 0x5B # body @ 0x5D # post) = Some (0x5B # body @ [0x5D])"
  using assms by (simp add: search_brackets_skip greedy_close_last)

lemma search_brackets_Some_mem: "search_brackets s = Some m \<Longrightarrow> 0x5B \<in> set s"
  by (induction s) (auto split: if_splits option.splits)

lemma greedy_close_sound:
  "greedy_close s = Some m \<Longrightarrow> \<exists>xs post. s = m @ post \<and> m = xs @ [0x5D] \<and> 0x5D \<notin> set post"
proof (induction s arbitrary: m)
  case Nil
  then show ?case by simp
next
  case (Cons c cs)
  show ?case
  proof (cases "greedy_close cs")
    case None
    with Cons.prems have "c = 0x5D" "m = [c]" by (simp_all split: if_splits)
    moreover from None have "0x5D \<notin> set cs" by (simp add: greedy_close_None_iff)
    ultimately have "c # cs = m @ cs \<and> m = [] @ [0x5D] \<and> 0x5D \<notin> set cs" by simp
    then show ?thesis by blast
  next
    case (Some m')
    with Cons.prems have m: "m = c # m'" by simp
    from Cons.IH [OF Some] obtain xs post where
      "cs = m' @ post" "m' = xs @ [0x5D]" "0x5D \<notin> set post" by blast
    with m have "c # cs = m @ post \<and> m = (c # xs) @ [0x5D] \<and> 0x5D \<notin> set post" by simp
    then show ?thesis by blast
  qed
qed

lemma search_brackets_sound:
  "search_brackets s = Some m \<Longrightarrow>
     \<exists>pre body post. s = pre @ m @ post \<and> m = 0x5B # body @ [0x5D] \<and>
       0x5B \<notin> set pre \<and> 0x5D \<notin> set post"
proof (induction s)
  case Nil
  then show ?case by simp
next
  case (Cons c cs)
  show ?case
  proof (cases "c = 0x5B \<and> greedy_close cs \<noteq> None")
    case True
    then obtain m' where g: "greedy_close cs = Some m'" by auto
    with True Cons.prems have m: "m = 0x5B # m'" by simp
    from greedy_close_sound [OF g] obtain xs post where
      "cs = m' @ post" "m' = xs @ [0x5D]" "0x5D \<notin> set post" by blast
    with m True have "c # cs = [] @ m @ post \<and> m = 0x5B # xs @ [0x5D] \<and>
        0x5B \<notin> set [] \<and> 0x5D \<notin> set post" by simp
    then show ?thesis by blast
  next
    case False
    with Cons.prems have rec: "search_brackets cs = Some m" by (auto split: if_splits)
    from Cons.IH [OF rec] obtain pre body post where
      d: "cs = pre @ m @ post" "m = 0x5B # body @ [0x5D]" "0x5B \<notin> set pre" "0x5D \<notin> set post"
      by blast
    have "c \<noteq> 0x5B"
    proof
      assume c: "c = 0x5B"
      with False have "greedy_close cs = None" by simp
      then have "0x5D \<notin> set cs" by (simp add: greedy_close_None_iff)
      with d(1,2) show False by simp
    qed
    with d have "c # cs = (c # pre) @ m @ post \<and> m = 0x5B # body @ [0x5D] \<and>
        0x5B \<notin> set (c # pre) \<and> 0x5D \<notin> set post" by simp
    then show ?thesis by blast
  qed
qed

lemma search_brackets_iff:
  "search_brackets s = Some m \<longleftrightarrow>
     (\<exists>pre body post. s = pre @ m @ post \<and> m = 0x5B # body @ [0x5D] \<and>
        0x5B \<notin> set pre \<and> 0x5D \<notin> set post)"
proof
  assume "search_brackets s = Some m"
  then show "\<exists>pre body post. s = pre @ m @ post \<and> m = 0x5B # body @ [0x5D] \<and>
        0x5B \<notin> set pre \<and> 0x5D \<notin> set post"
    by (rule search_brackets_sound)
next
  assume "\<exists>pre body post. s = pre @ m @ post \<and> m = 0x5B # body @ [0x5D] \<and>
        0x5B \<notin> set pre \<and> 0x5D \<notin> set post"
  then obtain pre body post where
    "s = pre @ m @ post" "m = 0x5B # body @ [0x5D]" "0x5B \<notin> set pre" "0x5D \<notin> set post"
    by blast
  then show "search_brackets s = Some m"
    using search_brackets_first_last [of pre post body] by simp
qed

lemma array_at_hd: "array_at s = Some m \<Longrightarrow> \<exists>cs. s = 0x5B # cs"
  by (cases s) (auto simp: array_at_def split: if_splits)

lemma search_array_Some_mem: "search_array s = Some m \<Longrightarrow> 0x5B \<in> set s"
proof (induction s)
  case Nil
  then show ?case by simp
next
  case (Cons c cs)
  show ?case
  proof (cases "array_at (c # cs)")
    case None
    with Cons show ?thesis by simp
  next
    case (Some a)
    from array_at_hd [OF this] show ?thesis by simp
  qed
qed

lemma search_array_skip:
  "0x5B \<notin> set pre \<Longrightarrow> search_array (pre @ s) = search_array s"
proof (induction pre)
  case Nil
  show ?case by simp
next
  case (Cons c pre)
  have "array_at (c # pre @ s) = None"
    using Cons.prems by (simp add: array_at_def)
  with Cons show ?case by simp
qed

lemma spaces_then:
  assumes "\<forall>c \<in> set ws. isspace c" "\<not> isspace b"
  shows "takeWhile isspace (ws @ b # r) = ws" "dropWhile isspace (ws @ b # r) = b # r"
  using assms by (simp_all add: takeWhile_append2 dropWhile_append2)

lemma close_at_final:
  assumes "\<forall>c \<in> set ws. isspace c"
  shows "close_at (0x7D # ws @ 0x5D # post) = Some (0x7D # ws @ [0x5D])"
  using spaces_then [OF assms bracket_not_space(2)] by (simp add: close_at_def)

lemma close_at_no_bracket:
  assumes "0x5D \<notin> set mid"
  shows "close_at (c # mid @ 0x7D # r) = None"
proof (cases "c = 0x7D")
  case False
  then show ?thesis by (simp add: close_at_def)
next
  case True
  have "\<exists>b bs. dropWhile isspace (mid @ 0x7D # r) = b # bs \<and> b \<noteq> 0x5D"
  proof (cases "\<forall>x \<in> set mid. isspace x")
    case True
    then have "dropWhile isspace (mid @ 0x7D # r) = 0x7D # r"
      using bracket_not_space(4) by (simp add: dropWhile_append2)
    then show ?thesis by simp
  next
    case False
    then have ne: "dropWhile isspace mid \<noteq> []" by (simp add: dropWhile_eq_Nil_conv)
    then obtain b bs where d: "dropWhile isspace mid = b # bs" by (cases "dropWhile isspace mid") auto
    then have "b \<in> set mid" by (metis list.set_intros(1) set_dropWhileD)
    with assms have "b \<noteq> 0x5D" by auto
    moreover from False have "dropWhile isspace (mid @ 0x7D # r) = dropWhile isspace mid @ 0x7D # r"
      by (auto simp: dropWhile_append1)
    ultimately show ?thesis using d by simp
  qed
  then obtain b bs where "dropWhile isspace (mid @ 0x7D # r) = b # bs" "b \<noteq> 0x5D" by blast
  then show ?thesis by (simp add: close_at_def)
qed

lemma lazy_close_final:
  assumes "0x5D \<notin> set mid" "\<forall>c \<in> set ws. isspace c"
  shows "lazy_close (mid @ 0x7D # ws @ 0x5D # post) = Some (mid @ 0x7D # ws @ [0x5D])"
  using assms(1)
proof (induction mid)
  case Nil
  show ?case using close_at_final [OF assms(2)] by simp
next
  case (Cons c mid)
  then have "0x5D \<notin> set mid" by simp
  from close_at_no_bracket [OF this] Cons show ?case by simp
qed

lemma search_array_whole:
  assumes "0x5B \<notin> set pre" "\<forall>c \<in> set ws1. isspace c" "\<forall>c \<in> set ws2. isspace c"
    and "0x5D \<notin> set mid"
  shows "search_array (pre @ 0x5B # ws1 @ 0x7B # mid @ 0x7D # ws2 @ 0x5D # post) =
           Some (0x5B # ws1 @ 0x7B # mid @ 0x7D # ws2 @ [0x5D])"
proof -
  have "array_at (0x5B # ws1 @ 0x7B # mid @ 0x7D # ws2 @ 0x5D # post) =
          Some (0x5B # ws1 @ 0x7B # mid @ 0x7D # ws2 @ [0x5D])"
    using spaces_then [OF assms(2) bracket_not_space(3)] lazy_close_final [OF assms(4,3)]
    by (simp add: array_at_def)
  then show ?thesis
    by (simp add: search_array_skip [OF assms(1)])
qed


lemma search_brackets_not_blank: "search_brackets s = Some m \<Longrightarrow> str_strip s \<noteq> []"
  using search_brackets_Some_mem [of s m] bracket_not_space(1)
  by (auto simp: str_strip_empty_iff)

lemma search_array_not_blank: "search_array s = Some m \<Longrightarrow> str_strip s \<noteq> []"
  using search_array_Some_mem [of s m] bracket_not_space(1)
  by (auto simp: str_strip_empty_iff)

text \<open>
  C3, as amended. On a response that is empty or all whitespace, \<^verbatim>\<open>detect_toc\<close> of app.py
  shows the message \<^verbatim>\<open>Error: Empty response from LLM while detecting TOC.\<close> and returns
  the empty list; \<^verbatim>\<open>detect_toc\<close> of app1.py raises \<^verbatim>\<open>ValueError\<close> and returns nothing.
\<close>

theorem empty_response:
  assumes "\<forall>c \<in> set (llm (toc_prompt t)). isspace c"
    and "\<forall>c \<in> set (llm1 (toc_prompt_app1 t)). isspace c"
  shows "detect_toc llm loads t =
           ([py ''Error: Empty response from LLM while detecting TOC.''], []) \<and>
         detect_toc_app1 llm1 loads t =
           Inl (ValueError (py ''Groq returned an empty response''))"
  using assms
  by (simp add: detect_toc_def detect_toc_app1_def Let_def str_strip_empty_iff)

theorem empty_response_witness:
  "detect_toc (\<lambda>p. py '' \<newline>  '') loads_example (py ''Contents'') =
     ([py ''Error: Empty response from LLM while detecting TOC.''], []) \<and>
   detect_toc_app1 (\<lambda>p. []) loads_example (py ''Contents'') =
     Inl (ValueError (py ''Groq returned an empty response''))"
  using empty_response [of "\<lambda>p. py '' \<newline>  ''" "py ''Contents''" "\<lambda>p. []" loads_example]
  by (simp add: py_def isspace_def)

text \<open>
  The claim as stated fails in app.py: the empty list is what the caller gets.
\<close>

theorem empty_response_default_counterexample:
  "detect_toc (\<lambda>p. []) loads_example (py ''Contents'') =
     ([py ''Error: Empty response from LLM while detecting TOC.''], []) \<and>
   snd (detect_toc (\<lambda>p. py '' \<newline>  '') loads_example (py ''Contents'')) = []"
  by (simp add: detect_toc_def Let_def str_strip_def py_def isspace_def)

text \<open>
  C4, as amended. When the text the search extracted is not valid JSON, \<^verbatim>\<open>detect_toc\<close> of
  app.py shows \<^verbatim>\<open>Error: Invalid JSON response from LLM while detecting TOC.\<close> and returns
  the empty list, with nothing recovered from the text; \<^verbatim>\<open>detect_toc\<close> of app1.py raises
  a \<^verbatim>\<open>ValueError\<close> whose message ends with the extracted text.
\<close>

theorem malformed_json:
  "(search_brackets (llm (toc_prompt t)) = Some ext \<and> loads ext = None \<longrightarrow>
      detect_toc llm loads t =
        ([py ''Error: Invalid JSON response from LLM while detecting TOC.''], [])) \<and>
   (search_array (llm1 (toc_prompt_app1 t)) = Some ext1 \<and> loads ext1 = None \<longrightarrow>
      detect_toc_app1 llm1 loads t =
        Inl (ValueError (py ''Failed to parse extracted JSON: '' @ ext1)))"
proof (intro conjI impI)
  assume a: "search_brackets (llm (toc_prompt t)) = Some ext \<and> loads ext = None"
  then have "str_strip (llm (toc_prompt t)) \<noteq> []"
    using search_brackets_not_blank by blast
  with a show "detect_toc llm loads t =
        ([py ''Error: Invalid JSON response from LLM while detecting TOC.''], [])"
    by (simp add: detect_toc_def Let_def)
next
  assume a: "search_array (llm1 (toc_prompt_app1 t)) = Some ext1 \<and> loads ext1 = None"
  then have "str_strip (llm1 (toc_prompt_app1 t)) \<noteq> []"
    using search_array_not_blank by blast
  with a show "detect_toc_app1 llm1 loads t =
        Inl (ValueError (py ''Failed to parse extracted JSON: '' @ ext1))"
    by (simp add: detect_toc_app1_def Let_def)
qed

theorem malformed_json_witness:
  "search_brackets (py ''TOC: [{}, {]'') = Some (py ''[{}, {]'') \<and>
   loads_example (py ''[{}, {]'') = None \<and>
   detect_toc (\<lambda>p. py ''TOC: [{}, {]'') loads_example (py ''Contents'') =
     ([py ''Error: Invalid JSON response from LLM while detecting TOC.''], []) \<and>
   search_array (py ''TOC: [{}, {x}]'') = Some (py ''[{}, {x}]'') \<and>
   loads_example (py ''[{}, {x}]'') = None \<and>
   detect_toc_app1 (\<lambda>p. py ''TOC: [{}, {x}]'') loads_example (py ''Contents'') =
     Inl (ValueError (py ''Failed to parse extracted JSON: [{}, {x}]''))"
proof -
  have 1: "search_brackets (py ''TOC: [{}, {]'') = Some (py ''[{}, {]'')"
    by (simp add: py_def)
  have 2: "loads_example (py ''[{}, {]'') = None" "loads_example (py ''[{}, {x}]'') = None"
    by (simp_all add: loads_example_def py_def)
  have 3: "search_array (py ''TOC: [{}, {x}]'') = Some (py ''[{}, {x}]'')"
    by (simp add: py_def array_at_def close_at_def isspace_def)
  from malformed_json [of "\<lambda>p. py ''TOC: [{}, {]''" "py ''Contents''" "py ''[{}, {]''"
      loads_example "\<lambda>p. py ''TOC: [{}, {x}]''" "py ''[{}, {x}]''"] 1 2 3
  show ?thesis by (simp add: py_def)
qed

text \<open>
  The claim as stated fails in app.py: the empty list is returned, and the message
  shown does not hold the extracted text.
\<close>

theorem malformed_json_default_counterexample:
  "detect_toc (\<lambda>p. py ''TOC: [{}, {]'') loads_example (py ''Contents'') =
     ([py ''Error: Invalid JSON response from LLM while detecting TOC.''], [])"
  by (simp add: detect_toc_def Let_def str_strip_def py_def isspace_def loads_example_def)

text \<open>
  C7, as amended. In app.py the payload is the first match of the greedy pattern
  \<^verbatim>\<open>\[.*\]\<close>: it runs from the first \<^verbatim>\<open>[\<close> of the response to its last \<^verbatim>\<open>]\<close>. When
  the response is an array between a text without \<^verbatim>\<open>[\<close> and a text without \<^verbatim>\<open>]\<close>, and
  the array is valid JSON, \<^verbatim>\<open>detect_toc\<close> of app.py returns the decoded array and shows no
  message. \<^verbatim>\<open>detect_toc\<close> of app1.py searches for the lazy pattern
  \<^verbatim>\<open>\[\s*\{.*?\}\s*\]\<close> instead; it returns the decoded array when, in addition, the
  array starts with an opening brace after optional whitespace, ends with a closing
  brace before optional whitespace, and has no other \<^verbatim>\<open>]\<close> in between.
\<close>

theorem bracket_payload:
  assumes "0x5B \<notin> set pre" "0x5D \<notin> set post"
  shows "(search_brackets s = Some m \<longleftrightarrow>
            (\<exists>p b q. s = p @ m @ q \<and> m = 0x5B # b @ [0x5D] \<and> 0x5B \<notin> set p \<and> 0x5D \<notin> set q)) \<and>
         (llm (toc_prompt t) = pre @ 0x5B # body @ 0x5D # post \<and>
          loads (0x5B # body @ [0x5D]) = Some recs \<longrightarrow>
            detect_toc llm loads t = ([], recs)) \<and>
         (llm1 (toc_prompt_app1 t) = pre @ 0x5B # body @ 0x5D # post \<and>
          loads (0x5B # body @ [0x5D]) = Some recs \<and>
          body = ws1 @ 0x7B # mid @ 0x7D # ws2 \<and> 0x5D \<notin> set mid \<and>
          (\<forall>c \<in> set ws1. isspace c) \<and> (\<forall>c \<in> set ws2. isspace c) \<longrightarrow>
            detect_toc_app1 llm1 loads t = Inr recs)"
proof (intro conjI impI)
  show "search_brackets s = Some m \<longleftrightarrow>
      (\<exists>p b q. s = p @ m @ q \<and> m = 0x5B # b @ [0x5D] \<and> 0x5B \<notin> set p \<and> 0x5D \<notin> set q)"
    by (rule search_brackets_iff)
next
  assume a: "llm (toc_prompt t) = pre @ 0x5B # body @ 0x5D # post \<and>
      loads (0x5B # body @ [0x5D]) = Some recs"
  have f: "search_brackets (llm (toc_prompt t)) = Some (0x5B # body @ [0x5D])"
    using a search_brackets_first_last [OF assms] by simp
  from a have l: "loads (0x5B # body @ [0x5D]) = Some recs" by blast
  from search_brackets_not_blank [OF f] show "detect_toc llm loads t = ([], recs)"
    by (simp add: detect_toc_def Let_def f l)
next
  assume a: "llm1 (toc_prompt_app1 t) = pre @ 0x5B # body @ 0x5D # post \<and>
      loads (0x5B # body @ [0x5D]) = Some recs \<and>
      body = ws1 @ 0x7B # mid @ 0x7D # ws2 \<and> 0x5D \<notin> set mid \<and>
      (\<forall>c \<in> set ws1. isspace c) \<and> (\<forall>c \<in> set ws2. isspace c)"
  then have w: "\<forall>c \<in> set ws1. isspace c" "\<forall>c \<in> set ws2. isspace c" "0x5D \<notin> set mid"
    by simp_all
  have f: "search_array (llm1 (toc_prompt_app1 t)) = Some (0x5B # body @ [0x5D])"
    using a search_array_whole [OF assms(1) w(1,2,3), of post] by simp
  from a have l: "loads (0x5B # body @ [0x5D]) = Some recs" by blast
  from search_array_not_blank [OF f] show "detect_toc_app1 llm1 loads t = Inr recs"
    by (simp add: detect_toc_app1_def Let_def f l)
qed

theorem bracket_payload_witness:
  "detect_toc (\<lambda>p. py ''Here is the TOC:\<newline>```json\<newline>[{}, {}]\<newline>```'') loads_example
     (py ''Contents'') = ([], [(), ()]) \<and>
   detect_toc_app1 (\<lambda>p. py ''Here is the TOC:\<newline>```json\<newline>[{}, {}]\<newline>```'') loads_example
     (py ''Contents'') = Inr [(), ()] \<and>
   search_brackets (py ''see [1] and [2]'') = Some (py ''[1] and [2]'')"
proof -
  have n: "0x5B \<notin> set (py ''Here is the TOC:\<newline>```json\<newline>'')" "0x5D \<notin> set (py ''\<newline>```'')"
    by (simp_all add: py_def)
  have l: "loads_example (0x5B # py ''{}, {}'' @ [0x5D]) = Some [(), ()]"
    by (simp add: loads_example_def py_def)
  have r: "py ''Here is the TOC:\<newline>```json\<newline>[{}, {}]\<newline>```'' =
      py ''Here is the TOC:\<newline>```json\<newline>'' @ 0x5B # py ''{}, {}'' @ 0x5D # py ''\<newline>```''"
    by (simp add: py_def)
  have b: "py ''{}, {}'' = [] @ 0x7B # py ''}, {'' @ 0x7D # []" "0x5D \<notin> set (py ''}, {'')"
    by (simp_all add: py_def)
  have i: "\<exists>p b q. py ''see [1] and [2]'' = p @ py ''[1] and [2]'' @ q \<and>
      py ''[1] and [2]'' = 0x5B # b @ [0x5D] \<and> 0x5B \<notin> set p \<and> 0x5D \<notin> set q"
    by (rule exI [of _ "py ''see ''"], rule exI [of _ "py ''1] and [2''"], rule exI [of _ "[]"])
       (simp add: py_def)
  from bracket_payload [OF n, of "py ''see [1] and [2]''" "py ''[1] and [2]''"
      "\<lambda>p. py ''Here is the TOC:\<newline>```json\<newline>[{}, {}]\<newline>```''" "py ''Contents''" "py ''{}, {}''"
      loads_example "[(), ()]"
      "\<lambda>p. py ''Here is the TOC:\<newline>```json\<newline>[{}, {}]\<newline>```''" "[]" "py ''}, {''" "[]"]
    l r b i
  show ?thesis by simp
qed

text \<open>
  The claim as stated fails in app1.py: the text it finds is not the first match of
  the greedy pattern, and on a response that wraps the empty array it raises
  \<^verbatim>\<open>ValueError\<close> where app.py returns the empty list of records.
\<close>

theorem lazy_pattern_counterexample:
  "search_brackets (py ''see [1] and [{}, {}]'') = Some (py ''[1] and [{}, {}]'') \<and>
   search_array (py ''see [1] and [{}, {}]'') = Some (py ''[{}, {}]'') \<and>
   detect_toc_app1 (\<lambda>p. py ''see [1] and [{}, {}]'') loads_example (py ''Contents'') =
     Inr [(), ()] \<and>
   detect_toc (\<lambda>p. py ''TOC: []'') loads_example (py ''Contents'') = ([], []) \<and>
   detect_toc_app1 (\<lambda>p. py ''TOC: []'') loads_example (py ''Contents'') =
     Inl (ValueError (py ''Invalid JSON from Groq: TOC: []''))"
  by (simp add: detect_toc_def detect_toc_app1_def Let_def str_strip_def py_def isspace_def
      loads_example_def array_at_def close_at_def)

text \<open>
  Why the lazy pattern needs an array without an inner \<^verbatim>\<open>]\<close>: when a closing brace
  inside the array is followed by \<^verbatim>\<open>]\<close>, the lazy match ends there, and the text
  app1.py hands to \<^verbatim>\<open>json.loads\<close> is a proper prefix of the array that app.py extracts.
\<close>

lemma lazy_pattern_inner_bracket:
  "search_array (py ''Here: [{a}]}] done'') = Some (py ''[{a}]'') \<and>
   search_brackets (py ''Here: [{a}]}] done'') = Some (py ''[{a}]}]'')"
  by (simp add: py_def array_at_def close_at_def isspace_def)

end
